theory Spec2Isabelle
  imports Main
begin

section \<open>The domain checker of \<^verbatim>\<open>src/validators/domain_checker.py\<close>\<close>

text \<open>
  The module asks Windows for the network membership of the host (domain or workgroup)
  through four calls of pywin32, keeps the answer of the last query in the attribute
  \<^verbatim>\<open>self.domain_info\<close> of a \<^verbatim>\<open>DomainChecker\<close> and writes to the module's logger.
  The embedding makes the three effects explicit: what the operating system answers is
  an argument, the attribute and the emitted log records are a state that every method
  returns updated, and an exception is the left summand of every result.
\<close>

subsection \<open>Exceptions and log records\<close>

text \<open>
  The exceptions the methods can meet. A failing pywin32 call raises
  \<^verbatim>\<open>pywintypes.error\<close>; subscripting \<^verbatim>\<open>None\<close> raises \<^verbatim>\<open>TypeError\<close>; reading a name
  that a module does not define raises \<^verbatim>\<open>AttributeError\<close>. All three are subclasses of
  \<^verbatim>\<open>Exception\<close>, so every \<^verbatim>\<open>except Exception\<close> of the module catches them. Each
  carries the text that \<^verbatim>\<open>str(e)\<close> gives.
\<close>

datatype exn = Win32Error string | TypeError string | AttributeError string

fun str_exn :: "exn \<Rightarrow> string" where
  "str_exn (Win32Error m) = m"
| "str_exn (TypeError m) = m"
| "str_exn (AttributeError m) = m"

datatype level = INFO | WARNING | ERROR

type_synonym log_record = "level \<times> string"

subsection \<open>Data\<close>

text \<open>
  The dictionary \<^verbatim>\<open>{'name': ..., 'is_domain': ..., 'join_type': ...}\<close> that
  \<^verbatim>\<open>is_domain_joined\<close> stores. The join type is the Python string of the status table.
\<close>

record membership =
  name :: string
  is_domain :: bool
  join_type :: string

text \<open>
  The state a method runs in: \<^verbatim>\<open>self.domain_info\<close> (\<open>None\<close> for Python's \<^verbatim>\<open>None\<close>)
  and the records emitted so far through the module's \<^verbatim>\<open>logger\<close>, oldest first.
\<close>

record state =
  domain_info :: "membership option"
  logged :: "log_record list"

text \<open>
  The dictionary \<^verbatim>\<open>win32net.NetWkstaGetInfo(None, 102)\<close> returns: the fields of
  \<^verbatim>\<open>WKSTA_INFO_102\<close>. The module reads \<^verbatim>\<open>'langroup'\<close> only.
\<close>

record wksta_info_102 =
  platform_id :: int
  computername :: string
  langroup :: string
  ver_major :: int
  ver_minor :: int
  lanroot :: string
  logged_on_users :: int

text \<open>
  What the operating system answers to each of the four calls the module makes, with the
  arguments the module passes: an exception or a value.
  \<^verbatim>\<open>NetGetJoinInformation\<close> returns a pair of the domain or workgroup name and the status
  code; \<^verbatim>\<open>GetComputerNameEx\<close> takes the kind of name asked for (its \<^verbatim>\<open>NameType\<close>).
\<close>

record win32 =
  NetWkstaGetInfo :: "exn + wksta_info_102"
  NetGetJoinInformation :: "exn + string \<times> int"
  GetComputerName :: "exn + string"
  GetComputerNameEx :: "int \<Rightarrow> exn + string"

subsection \<open>Statements of Python as state transformers\<close>

type_synonym 'a py = "state \<Rightarrow> (exn + 'a) \<times> state"

definition py_return :: "'a \<Rightarrow> 'a py" where
  "py_return v s = (Inr v, s)"

definition py_raise :: "exn \<Rightarrow> 'a py" where
  "py_raise e s = (Inl e, s)"

text \<open>Sequencing: an exception of the first statement skips the rest.\<close>

definition py_bind :: "'a py \<Rightarrow> ('a \<Rightarrow> 'b py) \<Rightarrow> 'b py" where
  "py_bind m f s = (case m s of (Inl e, s') \<Rightarrow> (Inl e, s') | (Inr v, s') \<Rightarrow> f v s')"

text \<open>
  \<^verbatim>\<open>try: body except Exception as e: handler\<close>. The handler runs in the state the body
  left: Python undoes nothing.
\<close>

definition try_except :: "'a py \<Rightarrow> (exn \<Rightarrow> 'a py) \<Rightarrow> 'a py" where
  "try_except body handler s =
     (case body s of (Inl e, s') \<Rightarrow> handler e s' | (Inr v, s') \<Rightarrow> (Inr v, s'))"

definition os_call :: "exn + 'a \<Rightarrow> 'a py" where
  "os_call answer s = (answer, s)"

text \<open>\<^verbatim>\<open>logger.info\<close>, \<^verbatim>\<open>logger.warning\<close>, \<^verbatim>\<open>logger.error\<close>: the root level is INFO, so all three emit.\<close>

definition logger :: "level \<Rightarrow> string \<Rightarrow> unit py" where
  "logger lv msg s = (Inr (), s\<lparr>logged := logged s @ [(lv, msg)]\<rparr>)"

definition set_domain_info :: "membership option \<Rightarrow> unit py" where
  "set_domain_info d s = (Inr (), s\<lparr>domain_info := d\<rparr>)"

definition read_domain_info :: "membership option py" where
  "read_domain_info s = (Inr (domain_info s), s)"

text \<open>\<^verbatim>\<open>d.get(k, default)\<close> of a dictionary.\<close>

definition dict_get :: "('k \<rightharpoonup> 'v) \<Rightarrow> 'k \<Rightarrow> 'v \<Rightarrow> 'v" where
  "dict_get d k dflt = (case d k of None \<Rightarrow> dflt | Some v \<Rightarrow> v)"

subsection \<open>The class \<^verbatim>\<open>DomainChecker\<close>\<close>

text \<open>\<^verbatim>\<open>DomainChecker()\<close>: a new checker, with the log as it stands.\<close>

definition DomainChecker :: "log_record list \<Rightarrow> state" where
  "DomainChecker lg = \<lparr>domain_info = None, logged = lg\<rparr>"

definition status_map :: "int \<rightharpoonup> string" where
  "status_map = [0 \<mapsto> ''Unknown'', 1 \<mapsto> ''Unjoined'', 2 \<mapsto> ''Workgroup'', 3 \<mapsto> ''Domain'']"

text \<open>The method \<^verbatim>\<open>_get_join_status\<close> (an Isabelle name cannot start with an underscore).\<close>

definition get_join_status :: "win32 \<Rightarrow> string py" where
  "get_join_status os =
     try_except
       (py_bind (os_call (NetGetJoinInformation os)) (\<lambda>join_status.
        py_return (dict_get status_map (snd join_status) ''Unknown'')))
       (\<lambda>e.
        py_bind (logger WARNING (''No se pudo obtener NetGetJoinInformation: '' @ str_exn e)) (\<lambda>_.
        py_return ''Unknown''))"

definition is_domain_joined :: "win32 \<Rightarrow> bool py" where
  "is_domain_joined os =
     try_except
       (py_bind (os_call (NetWkstaGetInfo os)) (\<lambda>info.
        let workgroup_or_domain = langroup info in
        py_bind (get_join_status os) (\<lambda>join_status.
        py_bind (set_domain_info (Some \<lparr>name = workgroup_or_domain,
                                        is_domain = (join_status = ''Domain''),
                                        join_type = join_status\<rparr>)) (\<lambda>_.
        py_bind (logger INFO (''Estado de la red: '' @ join_status @ '' - Nombre: ''
                              @ workgroup_or_domain)) (\<lambda>_.
        py_bind read_domain_info (\<lambda>d.
        case d of
          None \<Rightarrow> py_raise (TypeError ''NoneType object is not subscriptable'')
        | Some r \<Rightarrow> py_return (is_domain r)))))))
       (\<lambda>e.
        py_bind (logger ERROR (''Error al verificar dominio: '' @ str_exn e)) (\<lambda>_.
        py_return False))"

definition get_domain_info :: "membership option py" where
  "get_domain_info s =
     (if domain_info s = None
      then py_bind (logger WARNING ''Debe ejecutar is_domain_joined() primero'') (\<lambda>_.
           py_return None) s
      else py_return (domain_info s) s)"

definition get_computer_name :: "win32 \<Rightarrow> string py" where
  "get_computer_name os =
     try_except
       (os_call (GetComputerName os))
       (\<lambda>e.
        py_bind (logger ERROR (''Error al obtener nombre de computadora: '' @ str_exn e)) (\<lambda>_.
        py_return ''UNKNOWN''))"

text \<open>
  The expression \<^verbatim>\<open>win32netcon.ComputerNameDnsFullyQualified\<close> of
  \<^verbatim>\<open>get_full_computer_name\<close>. pywin32 defines that constant in \<^verbatim>\<open>win32con\<close> (where it is
  3), and \<^verbatim>\<open>win32netcon\<close> has no such name: reading it raises \<^verbatim>\<open>AttributeError\<close> with
  the text Python gives for a name missing from a module.
\<close>

definition missing_attribute :: exn where
  "missing_attribute =
     AttributeError
       (''module 'win32netcon' has no attribute 'ComputerNameDnsFullyQualified'' @ [CHR 0x27])"

definition win32netcon_ComputerNameDnsFullyQualified :: "int py" where
  "win32netcon_ComputerNameDnsFullyQualified = py_raise missing_attribute"

text \<open>
  The argument of \<^verbatim>\<open>GetComputerNameEx\<close> is evaluated before the call, inside the
  \<^verbatim>\<open>try\<close>: its exception reaches the handler and the call is not made.
\<close>

definition get_full_computer_name :: "win32 \<Rightarrow> string py" where
  "get_full_computer_name os =
     try_except
       (py_bind win32netcon_ComputerNameDnsFullyQualified (\<lambda>name_type.
        os_call (GetComputerNameEx os name_type)))
       (\<lambda>e.
        py_bind (logger ERROR (''Error al obtener FQDN: '' @ str_exn e)) (\<lambda>_.
        get_computer_name os))"

subsection \<open>The helper \<^verbatim>\<open>check_domain_status\<close>\<close>

text \<open>The values of the dictionary the helper returns.\<close>

datatype pyval = PyBool bool | PyStr string | PyDict membership | PyNone

definition optional_dict :: "membership option \<Rightarrow> pyval" where
  "optional_dict d = (case d of None \<Rightarrow> PyNone | Some r \<Rightarrow> PyDict r)"

text \<open>
  The helper makes a new checker and calls four methods on it; the operating system
  answers all of them from the same snapshot \<open>os\<close>.
\<close>

definition check_domain_status :: "win32 \<Rightarrow> log_record list \<Rightarrow> (exn + (string \<rightharpoonup> pyval)) \<times> state" where
  "check_domain_status os lg =
     py_bind (is_domain_joined os) (\<lambda>is_domain.
     py_bind (get_computer_name os) (\<lambda>computer_name.
     py_bind (get_full_computer_name os) (\<lambda>full_name.
     py_bind get_domain_info (\<lambda>info.
     py_return [''is_domain_joined'' \<mapsto> PyBool is_domain,
                ''computer_name'' \<mapsto> PyStr computer_name,
                ''full_name'' \<mapsto> PyStr full_name,
                ''domain_info'' \<mapsto> optional_dict info]))))
     (DomainChecker lg)"

subsection \<open>Clients of a checker\<close>

text \<open>
  A client calls the methods of one checker in some order, as the test script at the end
  of the module does; the operating system may answer every call differently. A run
  executes the calls from left to right and keeps the state.
\<close>

datatype client_call =
  Is_domain_joined win32
| Get_domain_info
| Get_computer_name win32
| Get_full_computer_name win32

fun call :: "client_call \<Rightarrow> state \<Rightarrow> state" where
  "call (Is_domain_joined os) s = snd (is_domain_joined os s)"
| "call Get_domain_info s = snd (get_domain_info s)"
| "call (Get_computer_name os) s = snd (get_computer_name os s)"
| "call (Get_full_computer_name os) s = snd (get_full_computer_name os s)"

definition run :: "client_call list \<Rightarrow> state \<Rightarrow> state" where
  "run ms s = fold call ms s"

fun is_query :: "client_call \<Rightarrow> bool" where
  "is_query (Is_domain_joined os) = True"
| "is_query Get_domain_info = False"
| "is_query (Get_computer_name os) = False"
| "is_query (Get_full_computer_name os) = False"

text \<open>The invariant of the stored record: absent, or flagged as a domain exactly by its join type.\<close>

definition record_ok :: "state \<Rightarrow> bool" where
  "record_ok s =
     (case domain_info s of None \<Rightarrow> True | Some r \<Rightarrow> is_domain r = (join_type r = ''Domain''))"

subsection \<open>Example hosts\<close>

text \<open>
  Four hosts for the concrete runs below: one joined to the domain CORP, one in the
  workgroup WORKGROUP, one on which every call fails, and one on which only
  \<^verbatim>\<open>NetGetJoinInformation\<close> fails.
\<close>

abbreviation wksta :: "string \<Rightarrow> wksta_info_102" where
  "wksta g \<equiv> \<lparr>platform_id = 500, computername = ''PC01'', langroup = g, ver_major = 10,
              ver_minor = 0, lanroot = [], logged_on_users = 1\<rparr>"

abbreviation corp_host :: win32 where
  "corp_host \<equiv> \<lparr>NetWkstaGetInfo = Inr (wksta ''CORP''),
                 NetGetJoinInformation = Inr (''CORP'', 3),
                 GetComputerName = Inr ''PC01'',
                 GetComputerNameEx = (\<lambda>name_type. Inr ''PC01.corp.example.com'')\<rparr>"

abbreviation workgroup_host :: win32 where
  "workgroup_host \<equiv> \<lparr>NetWkstaGetInfo = Inr (wksta ''WORKGROUP''),
                      NetGetJoinInformation = Inr (''WORKGROUP'', 2),
                      GetComputerName = Inr ''PC01'',
                      GetComputerNameEx = (\<lambda>name_type. Inr ''PC01'')\<rparr>"

abbreviation offline_host :: win32 where
  "offline_host \<equiv> \<lparr>NetWkstaGetInfo = Inl (Win32Error ''NetWkstaGetInfo failed''),
                    NetGetJoinInformation = Inl (Win32Error ''NetGetJoinInformation failed''),
                    GetComputerName = Inl (Win32Error ''GetComputerName failed''),
                    GetComputerNameEx = (\<lambda>name_type. Inl (Win32Error ''GetComputerNameEx failed''))\<rparr>"

abbreviation join_failing_host :: win32 where
  "join_failing_host \<equiv> \<lparr>NetWkstaGetInfo = Inr (wksta ''CORP''),
                         NetGetJoinInformation = Inl (Win32Error ''access denied''),
                         GetComputerName = Inr ''PC01'',
                         GetComputerNameEx = (\<lambda>name_type. Inr ''PC01.corp.example.com'')\<rparr>"

section \<open>Properties\<close>

lemmas py_defs =
  py_return_def py_raise_def py_bind_def try_except_def os_call_def logger_def
  set_domain_info_def read_domain_info_def

subsection \<open>The status table\<close>

lemma status_map_get:
  "dict_get status_map c ''Unknown'' =
     (if c = 3 then ''Domain'' else if c = 2 then ''Workgroup''
      else if c = 1 then ''Unjoined'' else ''Unknown'')"
  by (simp add: dict_get_def status_map_def)

lemma get_join_status_ok:
  "NetGetJoinInformation os = Inr (nm, c) \<Longrightarrow>
   get_join_status os s = (Inr (dict_get status_map c ''Unknown''), s)"
  by (simp add: get_join_status_def py_defs)

lemma get_join_status_fail:
  "NetGetJoinInformation os = Inl e \<Longrightarrow>
   get_join_status os s =
     (Inr ''Unknown'',
      s\<lparr>logged := logged s @ [(WARNING, ''No se pudo obtener NetGetJoinInformation: '' @ str_exn e)]\<rparr>)"
  by (simp add: get_join_status_def py_defs)


lemma get_join_status_returns:
  "\<exists>jt. get_join_status os s = (Inr jt, s\<lparr>logged := logged (snd (get_join_status os s))\<rparr>)"
  by (cases "NetGetJoinInformation os") (auto simp: get_join_status_def py_defs)

subsection \<open>The query\<close>

lemma is_domain_joined_fail:
  "NetWkstaGetInfo os = Inl e \<Longrightarrow>
   is_domain_joined os s =
     (Inr False, s\<lparr>logged := logged s @ [(ERROR, ''Error al verificar dominio: '' @ str_exn e)]\<rparr>)"
  by (simp add: is_domain_joined_def py_defs)

lemma is_domain_joined_ok:
  assumes "NetWkstaGetInfo os = Inr info" and "get_join_status os s = (Inr jt, s1)"
  shows "is_domain_joined os s =
     (Inr (jt = ''Domain''),
      s1\<lparr>domain_info := Some \<lparr>name = langroup info, is_domain = (jt = ''Domain''), join_type = jt\<rparr>,
         logged := logged s1 @ [(INFO, ''Estado de la red: '' @ jt @ '' - Nombre: '' @ langroup info)]\<rparr>)"
  using assms by (simp add: is_domain_joined_def py_defs Let_def)

text \<open>
  C1. For every status code that \<^verbatim>\<open>NetGetJoinInformation\<close> returns,
  \<^verbatim>\<open>_get_join_status\<close> returns the label of the fixed table: 0 gives Unknown, 1 Unjoined,
  2 Workgroup, 3 Domain, and every other integer gives Unknown.
\<close>

theorem get_join_status_table:
  assumes "NetGetJoinInformation os = Inr (nm, c)"
  shows "fst (get_join_status os s) =
           Inr (if c = 0 then ''Unknown'' else if c = 1 then ''Unjoined''
                else if c = 2 then ''Workgroup'' else if c = 3 then ''Domain''
                else ''Unknown'')"
  using assms by (simp add: get_join_status_ok status_map_get)

theorem get_join_status_table_witness:
  "NetGetJoinInformation corp_host = Inr (''CORP'', 3)
   \<and> fst (get_join_status corp_host (DomainChecker [])) = Inr ''Domain''
   \<and> NetGetJoinInformation (corp_host\<lparr>NetGetJoinInformation := Inr (''CORP'', 7)\<rparr>) = Inr (''CORP'', 7)
   \<and> fst (get_join_status (corp_host\<lparr>NetGetJoinInformation := Inr (''CORP'', 7)\<rparr>) (DomainChecker []))
       = Inr ''Unknown''"
  using get_join_status_table [of corp_host "''CORP''" 3 "DomainChecker []"]
    get_join_status_table [of "corp_host\<lparr>NetGetJoinInformation := Inr (''CORP'', 7)\<rparr>" "''CORP''" 7
      "DomainChecker []"]
  by simp

text \<open>
  C5. If \<^verbatim>\<open>NetGetJoinInformation\<close> raises, \<^verbatim>\<open>_get_join_status\<close> returns Unknown as a
  normal result (no exception leaves it) and emits one warning, leaving the rest of the
  state as it was.
\<close>

theorem get_join_status_failure:
  assumes "NetGetJoinInformation os = Inl e"
  shows "get_join_status os s =
           (Inr ''Unknown'',
            s\<lparr>logged := logged s @
                 [(WARNING, ''No se pudo obtener NetGetJoinInformation: '' @ str_exn e)]\<rparr>)"
  using assms by (rule get_join_status_fail)

theorem get_join_status_failure_witness:
  "NetGetJoinInformation join_failing_host = Inl (Win32Error ''access denied'')
   \<and> get_join_status join_failing_host (DomainChecker []) =
       (Inr ''Unknown'',
        \<lparr>domain_info = None,
         logged = [(WARNING, ''No se pudo obtener NetGetJoinInformation: access denied'')]\<rparr>)"
  using get_join_status_failure [of join_failing_host "Win32Error ''access denied''" "DomainChecker []"]
  by (simp add: DomainChecker_def)

lemma is_domain_joined_stores:
  assumes "NetWkstaGetInfo os = Inr info"
  shows "\<exists>jt. fst (get_join_status os s) = Inr jt
           \<and> fst (is_domain_joined os s) = Inr (jt = ''Domain'')
           \<and> domain_info (snd (is_domain_joined os s)) =
               Some \<lparr>name = langroup info, is_domain = (jt = ''Domain''), join_type = jt\<rparr>"
proof -
  obtain jt where j: "get_join_status os s = (Inr jt, s\<lparr>logged := logged (snd (get_join_status os s))\<rparr>)"
    using get_join_status_returns by blast
  have "fst (get_join_status os s) = Inr jt"
    using j by (metis fst_conv)
  moreover note is_domain_joined_ok [OF assms j]
  ultimately show ?thesis by simp
qed

lemma is_domain_joined_keeps:
  "NetWkstaGetInfo os = Inl e \<Longrightarrow> domain_info (snd (is_domain_joined os s)) = domain_info s"
  by (simp add: is_domain_joined_fail)

lemma is_domain_joined_join_fail:
  assumes "NetWkstaGetInfo os = Inr info" and "NetGetJoinInformation os = Inl e"
  shows "is_domain_joined os s =
     (Inr False,
      s\<lparr>domain_info := Some \<lparr>name = langroup info, is_domain = False, join_type = ''Unknown''\<rparr>,
        logged := logged s @
          [(WARNING, ''No se pudo obtener NetGetJoinInformation: '' @ str_exn e),
           (INFO, ''Estado de la red: Unknown - Nombre: '' @ langroup info)]\<rparr>)"
  using is_domain_joined_ok [OF assms(1) get_join_status_fail [OF assms(2)], of s] by simp

lemma is_domain_joined_code:
  assumes "NetWkstaGetInfo os = Inr info" and "NetGetJoinInformation os = Inr (nm, c)"
  shows "is_domain_joined os s =
     (Inr (c = 3),
      s\<lparr>domain_info := Some \<lparr>name = langroup info, is_domain = (c = 3),
                              join_type = dict_get status_map c ''Unknown''\<rparr>,
        logged := logged s @
          [(INFO, ''Estado de la red: '' @ dict_get status_map c ''Unknown'' @ '' - Nombre: ''
                  @ langroup info)]\<rparr>)"
proof -
  have "(dict_get status_map c ''Unknown'' = ''Domain'') = (c = 3)"
    by (simp add: status_map_get)
  with is_domain_joined_ok [OF assms(1) get_join_status_ok [OF assms(2)], of s]
  show ?thesis by simp
qed

lemma is_domain_joined_not_domain:
  assumes "NetWkstaGetInfo os = Inr info" and "NetGetJoinInformation os = Inr (nm, c)" and "c \<noteq> 3"
  shows "fst (is_domain_joined os s) = Inr False"
  using is_domain_joined_code [OF assms(1,2), of s] assms(3) by simp

subsection \<open>The stored record\<close>

lemma get_domain_info_frame: "domain_info (snd (get_domain_info s)) = domain_info s"
  by (simp add: get_domain_info_def py_defs)

lemma get_domain_info_returns: "fst (get_domain_info s) = Inr (domain_info s)"
  by (simp add: get_domain_info_def py_defs)

lemma get_computer_name_eq:
  "get_computer_name os s =
     (case GetComputerName os of
        Inl e \<Rightarrow> (Inr ''UNKNOWN'',
                  s\<lparr>logged := logged s @
                       [(ERROR, ''Error al obtener nombre de computadora: '' @ str_exn e)]\<rparr>)
      | Inr n \<Rightarrow> (Inr n, s))"
  by (simp add: get_computer_name_def py_defs split: sum.split)

text \<open>
  The handler of \<^verbatim>\<open>get_full_computer_name\<close> runs on every call, whatever the operating
  system would answer.
\<close>

lemma get_full_computer_name_eq:
  "get_full_computer_name os s =
     get_computer_name os
       (s\<lparr>logged := logged s @
            [(ERROR, ''Error al obtener FQDN: '' @ str_exn missing_attribute)]\<rparr>)"
  by (simp add: get_full_computer_name_def win32netcon_ComputerNameDnsFullyQualified_def py_defs)

lemma get_computer_name_frame: "domain_info (snd (get_computer_name os s)) = domain_info s"
  by (simp add: get_computer_name_eq split: sum.split)

lemma get_full_computer_name_frame: "domain_info (snd (get_full_computer_name os s)) = domain_info s"
  by (simp add: get_full_computer_name_eq get_computer_name_frame)

text \<open>The property of the stored record that every call keeps.\<close>

lemma call_record_ok: "record_ok s \<Longrightarrow> record_ok (call m s)"
proof (cases m)
  case (Is_domain_joined os)
  assume ok: "record_ok s"
  show ?thesis
  proof (cases "NetWkstaGetInfo os")
    case (Inl e)
    with ok Is_domain_joined show ?thesis
      by (simp add: record_ok_def is_domain_joined_keeps)
  next
    case (Inr info)
    with Is_domain_joined is_domain_joined_stores [OF Inr, of s] show ?thesis
      by (auto simp: record_ok_def)
  qed
qed (simp_all add: record_ok_def get_domain_info_frame get_computer_name_frame
      get_full_computer_name_frame)

lemma run_record_ok: "record_ok s \<Longrightarrow> record_ok (run ms s)"
  unfolding run_def by (induction ms arbitrary: s) (simp_all add: call_record_ok)

lemma call_keeps_record: "\<not> is_query m \<Longrightarrow> domain_info (call m s) = domain_info s"
  by (cases m) (simp_all add: get_domain_info_frame get_computer_name_frame
      get_full_computer_name_frame)

lemma run_keeps_record:
  "list_all (\<lambda>m. \<not> is_query m) ms \<Longrightarrow> domain_info (run ms s) = domain_info s"
  unfolding run_def by (induction ms arbitrary: s) (simp_all add: call_keeps_record)

text \<open>
  C2. A call of \<^verbatim>\<open>is_domain_joined\<close> stores a record exactly when
  \<^verbatim>\<open>NetWkstaGetInfo\<close> succeeds. In the record it stores, \<^verbatim>\<open>is_domain\<close> is true if and
  only if \<^verbatim>\<open>join_type\<close> is the string Domain, and the call returns the \<^verbatim>\<open>is_domain\<close> of
  that record. So whatever a client has called on a new checker, a record it finds stored
  has \<^verbatim>\<open>is_domain\<close> true if and only if its \<^verbatim>\<open>join_type\<close> is Domain.
\<close>

theorem is_domain_joined_record_invariant:
  assumes "NetWkstaGetInfo os = Inr info"
  shows "(\<exists>r. domain_info (snd (is_domain_joined os s)) = Some r
            \<and> (is_domain r \<longleftrightarrow> join_type r = ''Domain'')
            \<and> fst (is_domain_joined os s) = Inr (is_domain r))
       \<and> (\<forall>r. domain_info (run ms (DomainChecker lg)) = Some r \<longrightarrow>
               (is_domain r \<longleftrightarrow> join_type r = ''Domain''))"
proof -
  have "record_ok (DomainChecker lg)"
    by (simp add: record_ok_def DomainChecker_def)
  then have "record_ok (run ms (DomainChecker lg))"
    by (rule run_record_ok)
  then show ?thesis
    using is_domain_joined_stores [OF assms, of s] by (auto simp: record_ok_def)
qed

theorem is_domain_joined_record_invariant_witness:
  "NetWkstaGetInfo workgroup_host = Inr (wksta ''WORKGROUP'')
   \<and> (\<exists>r. domain_info (snd (is_domain_joined workgroup_host (DomainChecker []))) = Some r
         \<and> (is_domain r \<longleftrightarrow> join_type r = ''Domain'')
         \<and> fst (is_domain_joined workgroup_host (DomainChecker [])) = Inr (is_domain r))
   \<and> (\<exists>r. domain_info (run [Is_domain_joined corp_host, Is_domain_joined offline_host]
                          (DomainChecker [])) = Some r
         \<and> (is_domain r \<longleftrightarrow> join_type r = ''Domain''))"
proof -
  have h: "NetWkstaGetInfo workgroup_host = Inr (wksta ''WORKGROUP'')"
    by simp
  note t = is_domain_joined_record_invariant [OF h, of "DomainChecker []"
      "[Is_domain_joined corp_host, Is_domain_joined offline_host]" "[]"]
  have "domain_info (run [Is_domain_joined corp_host, Is_domain_joined offline_host]
                          (DomainChecker []))
        = Some \<lparr>name = ''CORP'', is_domain = True, join_type = ''Domain''\<rparr>"
    by (simp add: run_def is_domain_joined_keeps
        is_domain_joined_code [of _ "wksta ''CORP''" "''CORP''" 3] status_map_get)
  with t h show ?thesis by blast
qed

text \<open>
  C3. The specification has the stored record present after any call of
  \<^verbatim>\<open>is_domain_joined\<close>, failed or not, and the docstring and the warning of
  \<^verbatim>\<open>get_domain_info\<close> say the same: \<^verbatim>\<open>None\<close> means that \<^verbatim>\<open>is_domain_joined\<close> has
  not been run. The code misses that. On a new checker, a call in which
  \<^verbatim>\<open>NetWkstaGetInfo\<close> raises returns \<^verbatim>\<open>False\<close> through the handler, which assigns
  nothing: \<^verbatim>\<open>self.domain_info\<close> is still \<^verbatim>\<open>None\<close>, and \<^verbatim>\<open>get_domain_info\<close> then
  returns \<^verbatim>\<open>None\<close> and warns that \<^verbatim>\<open>is_domain_joined\<close> must be run first.
\<close>

theorem record_absent_after_failed_query:
  "is_domain_joined offline_host (DomainChecker []) =
     (Inr False,
      \<lparr>domain_info = None,
       logged = [(ERROR, ''Error al verificar dominio: NetWkstaGetInfo failed'')]\<rparr>)
   \<and> get_domain_info (snd (is_domain_joined offline_host (DomainChecker []))) =
     (Inr None,
      \<lparr>domain_info = None,
       logged = [(ERROR, ''Error al verificar dominio: NetWkstaGetInfo failed''),
                 (WARNING, ''Debe ejecutar is_domain_joined() primero'')]\<rparr>)"
  by (simp add: is_domain_joined_def get_domain_info_def py_defs DomainChecker_def)

text \<open>
  C4. If \<^verbatim>\<open>NetWkstaGetInfo\<close> or \<^verbatim>\<open>NetGetJoinInformation\<close> fails during
  \<^verbatim>\<open>is_domain_joined\<close>, the call returns \<^verbatim>\<open>False\<close> as a normal result (no exception
  reaches the caller) and emits a record of the failure: one error when
  \<^verbatim>\<open>NetWkstaGetInfo\<close> failed, otherwise the warning of \<^verbatim>\<open>_get_join_status\<close> followed by
  the usual information line. The value returned is the one a host returns on which both
  calls succeed and the status code is not 3.
\<close>

theorem is_domain_joined_failure:
  assumes fails: "NetWkstaGetInfo os = Inl e \<or> NetGetJoinInformation os = Inl e"
    and genuine: "NetWkstaGetInfo os' = Inr info'" "NetGetJoinInformation os' = Inr (nm', c')" "c' \<noteq> 3"
  shows "fst (is_domain_joined os s) = Inr False
       \<and> fst (is_domain_joined os' s') = fst (is_domain_joined os s)
       \<and> logged (snd (is_domain_joined os s)) = logged s @
           (case NetWkstaGetInfo os of
              Inl e1 \<Rightarrow> [(ERROR, ''Error al verificar dominio: '' @ str_exn e1)]
            | Inr info \<Rightarrow>
                [(WARNING, ''No se pudo obtener NetGetJoinInformation: '' @ str_exn e),
                 (INFO, ''Estado de la red: Unknown - Nombre: '' @ langroup info)])"
proof (cases "NetWkstaGetInfo os")
  case (Inl e1)
  then show ?thesis
    by (simp add: is_domain_joined_fail is_domain_joined_not_domain [OF genuine])
next
  case (Inr info)
  with fails have "NetGetJoinInformation os = Inl e" by simp
  from is_domain_joined_join_fail [OF Inr this, of s] Inr show ?thesis
    by (simp add: is_domain_joined_not_domain [OF genuine])
qed

theorem is_domain_joined_failure_witness:
  "(NetWkstaGetInfo join_failing_host = Inl (Win32Error ''access denied'')
      \<or> NetGetJoinInformation join_failing_host = Inl (Win32Error ''access denied''))
   \<and> NetWkstaGetInfo workgroup_host = Inr (wksta ''WORKGROUP'')
   \<and> NetGetJoinInformation workgroup_host = Inr (''WORKGROUP'', 2)
   \<and> (2::int) \<noteq> 3
   \<and> fst (is_domain_joined join_failing_host (DomainChecker [])) = Inr False
   \<and> fst (is_domain_joined workgroup_host (DomainChecker [])) = Inr False
   \<and> logged (snd (is_domain_joined join_failing_host (DomainChecker []))) =
       [(WARNING, ''No se pudo obtener NetGetJoinInformation: access denied''),
        (INFO, ''Estado de la red: Unknown - Nombre: CORP'')]"
  using is_domain_joined_failure [of join_failing_host "Win32Error ''access denied''"
      workgroup_host "wksta ''WORKGROUP''" "''WORKGROUP''" 2 "DomainChecker []" "DomainChecker []"]
  by (simp add: DomainChecker_def)

subsection \<open>The other methods\<close>

text \<open>
  C6. On a checker on which \<^verbatim>\<open>is_domain_joined\<close> has not been called, whatever else
  has been called, \<^verbatim>\<open>get_domain_info\<close> returns \<^verbatim>\<open>None\<close> (no record at all) and emits
  one warning; after a call of \<^verbatim>\<open>is_domain_joined\<close> it returns what
  \<^verbatim>\<open>self.domain_info\<close> holds.
\<close>

theorem get_domain_info_before_and_after_query:
  assumes "list_all (\<lambda>m. \<not> is_query m) ms"
  shows "get_domain_info (run ms (DomainChecker lg)) =
           (Inr None,
            (run ms (DomainChecker lg))
              \<lparr>logged := logged (run ms (DomainChecker lg)) @
                 [(WARNING, ''Debe ejecutar is_domain_joined() primero'')]\<rparr>)
       \<and> fst (get_domain_info (snd (is_domain_joined os s))) =
           Inr (domain_info (snd (is_domain_joined os s)))"
proof -
  have "domain_info (run ms (DomainChecker lg)) = None"
    using run_keeps_record [OF assms] by (simp add: DomainChecker_def)
  then have "get_domain_info (run ms (DomainChecker lg)) =
           (Inr None,
            (run ms (DomainChecker lg))
              \<lparr>logged := logged (run ms (DomainChecker lg)) @
                 [(WARNING, ''Debe ejecutar is_domain_joined() primero'')]\<rparr>)"
    by (simp add: get_domain_info_def py_defs)
  then show ?thesis
    by (simp add: get_domain_info_returns)
qed

theorem get_domain_info_before_and_after_query_witness:
  "list_all (\<lambda>m. \<not> is_query m) [Get_computer_name offline_host]
   \<and> get_domain_info (run [Get_computer_name offline_host] (DomainChecker [])) =
       (Inr None,
        \<lparr>domain_info = None,
         logged = [(ERROR, ''Error al obtener nombre de computadora: GetComputerName failed''),
                   (WARNING, ''Debe ejecutar is_domain_joined() primero'')]\<rparr>)
   \<and> fst (get_domain_info (snd (is_domain_joined corp_host (DomainChecker [])))) =
       Inr (Some \<lparr>name = ''CORP'', is_domain = True, join_type = ''Domain''\<rparr>)"
proof -
  have u: "list_all (\<lambda>m. \<not> is_query m) [Get_computer_name offline_host]"
    by simp
  have q: "domain_info (snd (is_domain_joined corp_host (DomainChecker []))) =
      Some \<lparr>name = ''CORP'', is_domain = True, join_type = ''Domain''\<rparr>"
    by (simp add: is_domain_joined_code [of _ "wksta ''CORP''" "''CORP''" 3] status_map_get)
  have r: "run [Get_computer_name offline_host] (DomainChecker []) =
      \<lparr>domain_info = None,
       logged = [(ERROR, ''Error al obtener nombre de computadora: GetComputerName failed'')]\<rparr>"
    by (simp add: run_def get_computer_name_eq DomainChecker_def)
  from get_domain_info_before_and_after_query [OF u, of "[]" corp_host "DomainChecker []"] u q
  show ?thesis
    by (simp add: r)
qed

text \<open>
  C8. If \<^verbatim>\<open>GetComputerName\<close> raises, \<^verbatim>\<open>get_computer_name\<close> emits one error record and
  returns the string UNKNOWN as a normal result.
\<close>

theorem get_computer_name_failure:
  assumes "GetComputerName os = Inl e"
  shows "get_computer_name os s =
           (Inr ''UNKNOWN'',
            s\<lparr>logged := logged s @
                 [(ERROR, ''Error al obtener nombre de computadora: '' @ str_exn e)]\<rparr>)"
  using assms by (simp add: get_computer_name_eq)

theorem get_computer_name_failure_witness:
  "GetComputerName offline_host = Inl (Win32Error ''GetComputerName failed'')
   \<and> get_computer_name offline_host (DomainChecker []) =
       (Inr ''UNKNOWN'',
        \<lparr>domain_info = None,
         logged = [(ERROR, ''Error al obtener nombre de computadora: GetComputerName failed'')]\<rparr>)"
  using get_computer_name_failure [of offline_host "Win32Error ''GetComputerName failed''"
      "DomainChecker []"]
  by (simp add: DomainChecker_def)

text \<open>
  C7. If \<^verbatim>\<open>GetComputerNameEx\<close> fails for the kind of name asked for,
  \<^verbatim>\<open>get_full_computer_name\<close> returns the value \<^verbatim>\<open>get_computer_name\<close> returns in the
  same state: the short name, or UNKNOWN when \<^verbatim>\<open>GetComputerName\<close> raises too. It is
  \<^verbatim>\<open>get_computer_name\<close> run after one error record, whose text is that of the
  \<^verbatim>\<open>AttributeError\<close> of the argument and not that of the operating system: the handler
  has run before the call is reached.
\<close>

theorem get_full_computer_name_fallback:
  assumes "GetComputerNameEx os name_type = Inl e"
  shows "fst (get_full_computer_name os s) = fst (get_computer_name os s)
       \<and> fst (get_computer_name os s) =
           (case GetComputerName os of Inl e' \<Rightarrow> Inr ''UNKNOWN'' | Inr n \<Rightarrow> Inr n)
       \<and> get_full_computer_name os s =
           get_computer_name os
             (s\<lparr>logged := logged s @
                  [(ERROR, ''Error al obtener FQDN: '' @ str_exn missing_attribute)]\<rparr>)"
  by (simp add: get_full_computer_name_eq get_computer_name_eq split: sum.split)

theorem get_full_computer_name_fallback_witness:
  "GetComputerNameEx offline_host 3 = Inl (Win32Error ''GetComputerNameEx failed'')
   \<and> fst (get_full_computer_name offline_host (DomainChecker [])) = Inr ''UNKNOWN''
   \<and> fst (get_computer_name offline_host (DomainChecker [])) = Inr ''UNKNOWN''
   \<and> get_full_computer_name offline_host (DomainChecker []) =
       (Inr ''UNKNOWN'',
        \<lparr>domain_info = None,
         logged =
           [(ERROR, ''Error al obtener FQDN: module 'win32netcon' has no attribute 'ComputerNameDnsFullyQualified'' @ [CHR 0x27]),
            (ERROR, ''Error al obtener nombre de computadora: GetComputerName failed'')]\<rparr>)"
proof -
  have h: "GetComputerNameEx offline_host 3 = Inl (Win32Error ''GetComputerNameEx failed'')"
    by simp
  note t = get_full_computer_name_fallback [OF h, of "DomainChecker []"]
  from t have a: "fst (get_full_computer_name offline_host (DomainChecker [])) =
      fst (get_computer_name offline_host (DomainChecker []))"
    by (rule conjunct1)
  from t have "fst (get_computer_name offline_host (DomainChecker [])) =
      (case GetComputerName offline_host of Inl e' \<Rightarrow> Inr ''UNKNOWN'' | Inr n \<Rightarrow> Inr n)"
    by blast
  then have b: "fst (get_computer_name offline_host (DomainChecker [])) = Inr ''UNKNOWN''"
    by simp
  from t have "get_full_computer_name offline_host (DomainChecker []) =
      get_computer_name offline_host
        ((DomainChecker [])\<lparr>logged := logged (DomainChecker []) @
              [(ERROR, ''Error al obtener FQDN: '' @ str_exn missing_attribute)]\<rparr>)"
    by blast
  then have c: "get_full_computer_name offline_host (DomainChecker []) =
       (Inr ''UNKNOWN'',
        \<lparr>domain_info = None,
         logged =
           [(ERROR, ''Error al obtener FQDN: module 'win32netcon' has no attribute 'ComputerNameDnsFullyQualified'' @ [CHR 0x27]),
            (ERROR, ''Error al obtener nombre de computadora: GetComputerName failed'')]\<rparr>)"
    by (simp add: get_computer_name_eq DomainChecker_def missing_attribute_def)
  from h a b c show ?thesis by simp
qed

subsection \<open>What a query overwrites\<close>

lemma get_join_status_value:
  "fst (get_join_status os s) =
     Inr (case NetGetJoinInformation os of
            Inl e \<Rightarrow> ''Unknown''
          | Inr join_status \<Rightarrow> dict_get status_map (snd join_status) ''Unknown'')"
  by (simp add: get_join_status_def py_defs split: sum.split)

lemma is_domain_joined_fresh_record:
  assumes "NetWkstaGetInfo os = Inr info"
  shows "domain_info (snd (is_domain_joined os s)) = domain_info (snd (is_domain_joined os t))"
  using is_domain_joined_stores [OF assms, of s] is_domain_joined_stores [OF assms, of t]
  by (auto simp: get_join_status_value)

text \<open>
  C9. A call of \<^verbatim>\<open>is_domain_joined\<close> in which \<^verbatim>\<open>NetWkstaGetInfo\<close> succeeds replaces the
  stored record by one built from the answers of that call alone: it is the record a
  new checker would store, whatever was stored before. \<^verbatim>\<open>get_domain_info\<close> then
  returns that record, and \<^verbatim>\<open>get_domain_info\<close>, \<^verbatim>\<open>get_computer_name\<close> and
  \<^verbatim>\<open>get_full_computer_name\<close> leave the stored record as it is.
\<close>

theorem is_domain_joined_overwrites:
  assumes "NetWkstaGetInfo os = Inr info"
  shows "(\<exists>jt. fst (get_join_status os s) = Inr jt
            \<and> domain_info (snd (is_domain_joined os s)) =
                Some \<lparr>name = langroup info, is_domain = (jt = ''Domain''), join_type = jt\<rparr>)
       \<and> domain_info (snd (is_domain_joined os s)) =
           domain_info (snd (is_domain_joined os (DomainChecker lg)))
       \<and> fst (get_domain_info (snd (is_domain_joined os s))) =
           Inr (domain_info (snd (is_domain_joined os s)))
       \<and> domain_info (snd (get_domain_info s)) = domain_info s
       \<and> domain_info (snd (get_computer_name os' s)) = domain_info s
       \<and> domain_info (snd (get_full_computer_name os' s)) = domain_info s"
proof -
  have "\<exists>jt. fst (get_join_status os s) = Inr jt
            \<and> domain_info (snd (is_domain_joined os s)) =
                Some \<lparr>name = langroup info, is_domain = (jt = ''Domain''), join_type = jt\<rparr>"
    using is_domain_joined_stores [OF assms, of s] by blast
  moreover have "domain_info (snd (is_domain_joined os s)) =
           domain_info (snd (is_domain_joined os (DomainChecker lg)))"
    using assms by (rule is_domain_joined_fresh_record)
  ultimately show ?thesis
    by (simp only: get_domain_info_returns get_domain_info_frame get_computer_name_frame
        get_full_computer_name_frame simp_thms)
qed

theorem is_domain_joined_overwrites_witness:
  "NetWkstaGetInfo workgroup_host = Inr (wksta ''WORKGROUP'')
   \<and> fst (get_domain_info
            (snd (is_domain_joined workgroup_host
                   (snd (is_domain_joined corp_host (DomainChecker []))))))
       = Inr (Some \<lparr>name = ''WORKGROUP'', is_domain = False, join_type = ''Workgroup''\<rparr>)"
proof -
  have h: "NetWkstaGetInfo workgroup_host = Inr (wksta ''WORKGROUP'')"
    by simp
  note t = is_domain_joined_overwrites [OF h,
      of "snd (is_domain_joined corp_host (DomainChecker []))" "[]"]
  have q: "domain_info (snd (is_domain_joined workgroup_host (DomainChecker []))) =
      Some \<lparr>name = ''WORKGROUP'', is_domain = False, join_type = ''Workgroup''\<rparr>"
    by (simp add: is_domain_joined_code [of _ "wksta ''WORKGROUP''" "''WORKGROUP''" 2]
        status_map_get)
  from t have "fst (get_domain_info
            (snd (is_domain_joined workgroup_host
                   (snd (is_domain_joined corp_host (DomainChecker []))))))
       = Inr (domain_info (snd (is_domain_joined workgroup_host (DomainChecker []))))"
    by metis
  with q h show ?thesis by simp
qed

subsection \<open>The helper\<close>

lemma check_domain_status_value:
  assumes "is_domain_joined os (DomainChecker lg) = (Inr b, s1)"
  shows "fst (check_domain_status os lg) =
           Inr [''is_domain_joined'' \<mapsto> PyBool b,
                ''computer_name'' \<mapsto>
                   PyStr (case GetComputerName os of Inl e \<Rightarrow> ''UNKNOWN'' | Inr n \<Rightarrow> n),
                ''full_name'' \<mapsto>
                   PyStr (case GetComputerName os of Inl e \<Rightarrow> ''UNKNOWN'' | Inr n \<Rightarrow> n),
                ''domain_info'' \<mapsto> optional_dict (domain_info s1)]"
  using assms
  by (simp add: check_domain_status_def py_bind_def py_return_def get_computer_name_eq
      get_full_computer_name_eq get_domain_info_def logger_def split: sum.split)

text \<open>
  C10. \<^verbatim>\<open>check_domain_status\<close> always returns a dictionary. Its entry
  \<^verbatim>\<open>'domain_info'\<close> is \<^verbatim>\<open>None\<close> exactly when \<^verbatim>\<open>NetWkstaGetInfo\<close> failed and a record
  otherwise, and when it is a record the entry \<^verbatim>\<open>'is_domain_joined'\<close> is the
  \<^verbatim>\<open>is_domain\<close> of that record.
\<close>

theorem check_domain_status_consistent:
  "\<exists>d. fst (check_domain_status os lg) = Inr d
      \<and> (d ''domain_info'' = Some PyNone \<longleftrightarrow> isl (NetWkstaGetInfo os))
      \<and> ((\<exists>r. d ''domain_info'' = Some (PyDict r)) \<longleftrightarrow> \<not> isl (NetWkstaGetInfo os))
      \<and> (\<forall>r. d ''domain_info'' = Some (PyDict r) \<longrightarrow>
              d ''is_domain_joined'' = Some (PyBool (is_domain r)))"
proof (cases "NetWkstaGetInfo os")
  case (Inl e)
  from check_domain_status_value [OF is_domain_joined_fail [OF Inl], of lg] Inl
  show ?thesis
    by (simp add: optional_dict_def DomainChecker_def)
next
  case (Inr info)
  obtain jt where b: "fst (is_domain_joined os (DomainChecker lg)) = Inr (jt = ''Domain'')"
    and r: "domain_info (snd (is_domain_joined os (DomainChecker lg))) =
              Some \<lparr>name = langroup info, is_domain = (jt = ''Domain''), join_type = jt\<rparr>"
    using is_domain_joined_stores [OF Inr, of "DomainChecker lg"] by blast
  have "is_domain_joined os (DomainChecker lg) =
      (Inr (jt = ''Domain''), snd (is_domain_joined os (DomainChecker lg)))"
    using b by (metis prod.collapse)
  from check_domain_status_value [OF this] r Inr
  show ?thesis
    by (simp add: optional_dict_def)
qed

theorem check_domain_status_consistent_witness:
  "\<exists>d. fst (check_domain_status corp_host []) = Inr d
      \<and> d ''domain_info'' =
          Some (PyDict \<lparr>name = ''CORP'', is_domain = True, join_type = ''Domain''\<rparr>)
      \<and> d ''is_domain_joined'' = Some (PyBool True)"
proof -
  from check_domain_status_consistent [of corp_host "[]"]
  obtain d where d: "fst (check_domain_status corp_host []) = Inr d"
    and agree: "\<forall>r. d ''domain_info'' = Some (PyDict r) \<longrightarrow>
              d ''is_domain_joined'' = Some (PyBool (is_domain r))"
    by blast
  have "is_domain_joined corp_host (DomainChecker []) =
      (Inr True,
       \<lparr>domain_info = Some \<lparr>name = ''CORP'', is_domain = True, join_type = ''Domain''\<rparr>,
        logged = [(INFO, ''Estado de la red: Domain - Nombre: CORP'')]\<rparr>)"
    by (simp add: is_domain_joined_code [of _ "wksta ''CORP''" "''CORP''" 3] status_map_get
        DomainChecker_def)
  from check_domain_status_value [OF this] d
  have r: "d ''domain_info'' =
      Some (PyDict \<lparr>name = ''CORP'', is_domain = True, join_type = ''Domain''\<rparr>)"
    by (auto simp: optional_dict_def)
  with agree have "d ''is_domain_joined'' =
      Some (PyBool (is_domain \<lparr>name = ''CORP'', is_domain = True, join_type = ''Domain''\<rparr>))"
    by blast
  with d r show ?thesis by simp
qed

end
